theory Spec2Isabelle
  imports Main "HOL-Library.Sublist"
begin

section \<open>Model registry (package registry, consumed by util and providers)\<close>

text \<open>
  The registry package itself is not part of the sources under study; only the fields
  that \<^verbatim>\<open>util\<close> and \<^verbatim>\<open>providers\<close> read are declared here. Go's \<^verbatim>\<open>int\<close> values are
  only compared in the budget resolver, never added, so they are plain integers.
  A nil pointer is \<open>None\<close>. Field names that would clash with the lattice constants
  \<open>Min\<close> and \<open>Max\<close> carry a suffix.
\<close>

type_synonym ThinkingLevel = string

record ThinkingBudgets =
  Low :: int
  Medium :: int
  High :: int
  Max_budget :: int

record ThinkingSupport =
  Min_thinking :: int
  Max_thinking :: int
  DefaultLevel :: ThinkingLevel
  Budgets :: ThinkingBudgets

record ModelInfo =
  Thinking :: "ThinkingSupport option"
  MaxCompletionTokens :: int

text \<open>
  \<^verbatim>\<open>registry.GetGlobalRegistry().GetModelInfo(name)\<close>: the process-wide table is read
  only, so every function that consults it takes the lookup as a parameter.
\<close>

type_synonym Registry = "string \<Rightarrow> ModelInfo option"

text \<open>The zero value \<^verbatim>\<open>registry.ThinkingBudgets{}\<close>.\<close>

definition ThinkingBudgets_zero :: ThinkingBudgets where
  "ThinkingBudgets_zero = \<lparr>Low = 0, Medium = 0, High = 0, Max_budget = 0\<rparr>"

section \<open>Thinking budgets (package util)\<close>

definition DefaultThinkingBudget :: int where
  "DefaultThinkingBudget = 1024"

definition DefaultThinkingBudgets :: ThinkingBudgets where
  "DefaultThinkingBudgets = \<lparr>Low = 1024, Medium = 8192, High = 24576, Max_budget = 32768\<rparr>"

definition ThinkingLevelLow :: ThinkingLevel where
  "ThinkingLevelLow = ''low''"

definition ThinkingLevelMedium :: ThinkingLevel where
  "ThinkingLevelMedium = ''medium''"

definition ThinkingLevelHigh :: ThinkingLevel where
  "ThinkingLevelHigh = ''high''"

definition ThinkingLevelMax :: ThinkingLevel where
  "ThinkingLevelMax = ''max''"

definition ModelSupportsThinking :: "Registry \<Rightarrow> string \<Rightarrow> bool" where
  "ModelSupportsThinking reg model =
     (if model = [] then False
      else case reg model of
             Some info \<Rightarrow> Thinking info \<noteq> None
           | None \<Rightarrow> False)"

definition GetModelThinkingMin :: "Registry \<Rightarrow> string \<Rightarrow> int" where
  "GetModelThinkingMin reg model =
     (if model = [] then 0
      else case reg model of
             None \<Rightarrow> 0
           | Some info \<Rightarrow> (case Thinking info of None \<Rightarrow> 0 | Some ts \<Rightarrow> Min_thinking ts))"

definition GetDefaultThinkingBudget :: "Registry \<Rightarrow> string \<Rightarrow> int" where
  "GetDefaultThinkingBudget reg model =
     (let m = GetModelThinkingMin reg model
      in if m > 0 then m else DefaultThinkingBudget)"

definition GetAutoAppliedThinkingConfig :: "Registry \<Rightarrow> string \<Rightarrow> int \<times> bool \<times> bool" where
  "GetAutoAppliedThinkingConfig reg model =
     (if ModelSupportsThinking reg model
      then (GetDefaultThinkingBudget reg model, True, True)
      else (0, False, False))"

text \<open>
  \<^verbatim>\<open>strings.HasSuffix\<close> compares bytes, which is \<open>suffix\<close> on character lists. The
  switch tries its cases in the order written.
\<close>

definition ParseThinkingSuffix :: "string \<Rightarrow> ThinkingLevel \<times> bool" where
  "ParseThinkingSuffix modelName =
     (if suffix ''-thinking-max'' modelName then (ThinkingLevelMax, True)
      else if suffix ''-thinking-high'' modelName then (ThinkingLevelHigh, True)
      else if suffix ''-thinking-medium'' modelName then (ThinkingLevelMedium, True)
      else if suffix ''-thinking-low'' modelName then (ThinkingLevelLow, True)
      else if suffix ''-thinking'' modelName then (ThinkingLevelMax, True)
      else ([], False))"

text \<open>
  Modelled from the spec: the constants \<^verbatim>\<open>registry.ThinkingLevelLow\<close> ...
  \<^verbatim>\<open>registry.ThinkingLevelMax\<close> are declared in the registry package, which is not
  among the sources; the specification gives the level names low, medium, high, max.
\<close>

definition registry_ThinkingLevelLow :: ThinkingLevel where
  "registry_ThinkingLevelLow = ''low''"

definition registry_ThinkingLevelMedium :: ThinkingLevel where
  "registry_ThinkingLevelMedium = ''medium''"

definition registry_ThinkingLevelHigh :: ThinkingLevel where
  "registry_ThinkingLevelHigh = ''high''"

definition registry_ThinkingLevelMax :: ThinkingLevel where
  "registry_ThinkingLevelMax = ''max''"

text \<open>
  The first switch matches the suffix level against the constants of package util and
  yields 0 by default; the second one matches the registry's default level against the
  constants of package registry and yields the model's minimum by default.
\<close>

definition GetThinkingBudget :: "Registry \<Rightarrow> string \<Rightarrow> ThinkingLevel \<Rightarrow> int \<Rightarrow> int \<times> bool" where
  "GetThinkingBudget reg model suffixLevel userBudget =
     (case reg model of
        None \<Rightarrow> (0, False)
      | Some info \<Rightarrow>
          (case Thinking info of
             None \<Rightarrow> (0, False)
           | Some ts \<Rightarrow>
               (let budget =
                      (if userBudget > 0 then userBudget
                       else if suffixLevel \<noteq> [] then
                         (let budgets = (if Budgets ts = ThinkingBudgets_zero
                                         then DefaultThinkingBudgets else Budgets ts)
                          in if suffixLevel = ThinkingLevelLow then Low budgets
                             else if suffixLevel = ThinkingLevelMedium then Medium budgets
                             else if suffixLevel = ThinkingLevelHigh then High budgets
                             else if suffixLevel = ThinkingLevelMax then Max_budget budgets
                             else 0)
                       else if DefaultLevel ts \<noteq> [] then
                         (let budgets = (if Budgets ts = ThinkingBudgets_zero
                                         then DefaultThinkingBudgets else Budgets ts)
                          in if DefaultLevel ts = registry_ThinkingLevelLow then Low budgets
                             else if DefaultLevel ts = registry_ThinkingLevelMedium
                               then Medium budgets
                             else if DefaultLevel ts = registry_ThinkingLevelHigh
                               then High budgets
                             else if DefaultLevel ts = registry_ThinkingLevelMax
                               then Max_budget budgets
                             else Min_thinking ts)
                       else Min_thinking ts);
                    budget = (if budget < Min_thinking ts \<and> Min_thinking ts > 0
                              then Min_thinking ts else budget);
                    budget = (if budget > Max_thinking ts \<and> Max_thinking ts > 0
                              then Max_thinking ts else budget)
                in (budget, budget > 0))))"

section \<open>JSON documents and the path library (gjson, sjson)\<close>

text \<open>
  The request bodies are byte strings holding JSON, read with \<^verbatim>\<open>gjson\<close> and written
  with \<^verbatim>\<open>sjson\<close>. Both libraries are third-party code; they are modelled on the
  parsed document. An object keeps its members in order, duplicates included, because
  a path selects the first member with the key and a write replaces that member's value
  or appends a new member at the end. Strings and keys are held unescaped.

  Numbers: \<open>JInt v\<close> is an integer literal of any size. A literal with a fraction or an
  exponent goes through \<^verbatim>\<open>float64\<close> in gjson; that conversion is not modelled, and
  \<open>JFloat raw i\<close> stands for the literal with text \<open>raw\<close> whose integer reading by
  \<^verbatim>\<open>Result.Int()\<close> is \<open>i\<close>.

  Byte strings that are not JSON documents (among them the empty body) have no
  counterpart here. A document may be any JSON value; gjson looks for members by
  scanning for the first bracket, so a document that is a single string or number is
  taken to have no members.
\<close>

datatype json =
    JNull
  | JFalse
  | JTrue
  | JInt int
  | JFloat string int
  | JString string
  | JArray "json list"
  | JObject "(string \<times> json) list"

text \<open>Go's \<^verbatim>\<open>int64\<close>: the conversion wraps around.\<close>

definition int64 :: "int \<Rightarrow> int" where
  "int64 x = (x + 2 ^ 63) mod 2 ^ 64 - 2 ^ 63"

text \<open>
  A \<^verbatim>\<open>gjson.Result\<close> is \<open>None\<close> when the path selects nothing (\<^verbatim>\<open>Exists()\<close> is false)
  and the selected value otherwise.
\<close>

type_synonym Result = "json option"

definition gjson_Exists :: "Result \<Rightarrow> bool" where
  "gjson_Exists r = (r \<noteq> None)"

definition gjson_IsArray :: "Result \<Rightarrow> bool" where
  "gjson_IsArray r = (case r of Some (JArray xs) \<Rightarrow> True | _ \<Rightarrow> False)"

text \<open>A path is its components, separated by dots.\<close>

fun split_dots :: "string \<Rightarrow> string \<Rightarrow> string list" where
  "split_dots acc [] = [rev acc]"
| "split_dots acc (c # cs) =
     (if c = CHR ''.'' then rev acc # split_dots [] cs else split_dots (c # acc) cs)"

definition parsePath :: "string \<Rightarrow> string list" where
  "parsePath path = (if path = [] then [] else split_dots [] path)"

text \<open>
  The path search of gjson, for the keys of this program, which are never numeric,
  never contain a wildcard and never contain a modifier: only an object has members.
  The members of an object are scanned in order. A member whose key is the first
  component ends the search when the path ends there; when the path goes on, the search
  descends into the member's value, and if nothing is found there it goes on with the
  members that follow.
\<close>

fun gjson_Get_parts :: "json \<Rightarrow> string list \<Rightarrow> Result"
  and gjson_Get_members :: "(string \<times> json) list \<Rightarrow> string \<Rightarrow> string list \<Rightarrow> Result" where
  "gjson_Get_parts (JObject kvs) (k # ks) = gjson_Get_members kvs k ks"
| "gjson_Get_parts j ks = None"
| "gjson_Get_members [] k ks = None"
| "gjson_Get_members ((k', v) # kvs) k ks =
     (if k' = k then
        (if ks = [] then Some v
         else case gjson_Get_parts v ks of
                Some r \<Rightarrow> Some r
              | None \<Rightarrow> gjson_Get_members kvs k ks)
      else gjson_Get_members kvs k ks)"

text \<open>The search for a single key, as sjson uses it at each step of its walk.\<close>

definition gjson_Get_key :: "json \<Rightarrow> string \<Rightarrow> Result" where
  "gjson_Get_key j k = gjson_Get_parts j [k]"

definition gjson_GetBytes :: "json \<Rightarrow> string \<Rightarrow> Result" where
  "gjson_GetBytes body path = gjson_Get_parts body (parsePath path)"

definition gjson_Get :: "Result \<Rightarrow> string \<Rightarrow> Result" where
  "gjson_Get r path = (case r of None \<Rightarrow> None | Some j \<Rightarrow> gjson_Get_parts j (parsePath path))"

text \<open>
  \<^verbatim>\<open>Result.String()\<close> yields the content of a string, the words \<^verbatim>\<open>true\<close> and
  \<^verbatim>\<open>false\<close>, nothing for null and for a missing value, and for a number or a container
  a rendering of it, which starts with a digit, a sign or a bracket. The rendering
  depends on the bytes of the body and is kept symbolic: \<open>TextOf j\<close>.
\<close>

datatype gjson_text = Str string | TextOf json

fun gjson_String :: "Result \<Rightarrow> gjson_text" where
  "gjson_String None = Str []"
| "gjson_String (Some JNull) = Str []"
| "gjson_String (Some JFalse) = Str ''false''"
| "gjson_String (Some JTrue) = Str ''true''"
| "gjson_String (Some (JString s)) = Str s"
| "gjson_String (Some j) = TextOf j"

text \<open>
  gjson's \<^verbatim>\<open>parseInt\<close>: an optional minus sign, then digits only; the accumulator is an
  \<^verbatim>\<open>int64\<close> and wraps around.
\<close>

definition is_digit :: "char \<Rightarrow> bool" where
  "is_digit c = (48 \<le> (of_char c :: nat) \<and> (of_char c :: nat) \<le> 57)"

fun parseInt_digits :: "int \<Rightarrow> string \<Rightarrow> int \<times> bool" where
  "parseInt_digits n [] = (n, True)"
| "parseInt_digits n (c # cs) =
     (if is_digit c then parseInt_digits (int64 (n * 10 + (of_char c - 48))) cs
      else (0, False))"

definition parseInt :: "string \<Rightarrow> int \<times> bool" where
  "parseInt s =
     (let sign = (s \<noteq> [] \<and> hd s = CHR ''-'');
          digits = (if sign then tl s else s)
      in if digits = [] then (0, False)
         else case parseInt_digits 0 digits of
                (n, ok) \<Rightarrow>
                  if \<not> ok then (0, False)
                  else if sign then (int64 (n * - 1), True)
                  else (n, True))"

text \<open>
  \<^verbatim>\<open>Result.Int()\<close>: 1 for true, the parsed digits for a string, the value of a number
  (an integer literal that does not fit is read with the wrapping \<^verbatim>\<open>parseInt\<close>), and 0
  for everything else.
\<close>

fun gjson_Int :: "Result \<Rightarrow> int" where
  "gjson_Int (Some JTrue) = 1"
| "gjson_Int (Some (JString s)) = fst (parseInt s)"
| "gjson_Int (Some (JInt v)) = int64 v"
| "gjson_Int (Some (JFloat raw i)) = int64 i"
| "gjson_Int r = 0"

text \<open>
  \<^verbatim>\<open>sjson.SetBytes\<close>. The library walks the path: a member that exists is entered, and
  at the end of the path its value is replaced; where the member is missing, the rest of
  the path is built as nested objects and appended to the object. A value that is
  neither an object nor an array is taken for an empty object; an array refuses a key
  that is not a number, which is the library's only error for the keys of this program.
\<close>

fun appendBuild :: "string list \<Rightarrow> json \<Rightarrow> json" where
  "appendBuild [] v = v"
| "appendBuild (p # ps) v = JObject [(p, appendBuild ps v)]"

fun replace_first :: "string \<Rightarrow> json \<Rightarrow> (string \<times> json) list \<Rightarrow> (string \<times> json) list" where
  "replace_first k v [] = []"
| "replace_first k v ((k', x) # kvs) =
     (if k' = k then (k', v) # kvs else (k', x) # replace_first k v kvs)"

fun replace_member :: "json \<Rightarrow> string \<Rightarrow> json \<Rightarrow> json" where
  "replace_member (JObject kvs) k v = JObject (replace_first k v kvs)"
| "replace_member j k v = j"

fun appendRawPaths :: "json \<Rightarrow> string list \<Rightarrow> json \<Rightarrow> json option" where
  "appendRawPaths j [] v = None"
| "appendRawPaths j (p # ps) v =
     (case gjson_Get_key j p of
        Some child \<Rightarrow>
          (if ps \<noteq> [] then
             (case appendRawPaths child ps v of
                None \<Rightarrow> None
              | Some child' \<Rightarrow> Some (replace_member j p child'))
           else Some (replace_member j p v))
      | None \<Rightarrow>
          (case j of
             JObject kvs \<Rightarrow> Some (JObject (kvs @ [(p, appendBuild ps v)]))
           | JArray xs \<Rightarrow> None
           | _ \<Rightarrow> Some (JObject [(p, appendBuild ps v)])))"

text \<open>The callers drop the error; on an error the library hands back its input.\<close>

definition sjson_SetBytes :: "json \<Rightarrow> string \<Rightarrow> json \<Rightarrow> json" where
  "sjson_SetBytes body path v =
     (case appendRawPaths body (parsePath path) v of None \<Rightarrow> body | Some body' \<Rightarrow> body')"

section \<open>Thinking configuration of Claude requests (package providers)\<close>

record ThinkingConfig =
  Enabled :: bool
  BudgetTokens :: int

definition ParseClaudeThinkingFromModel :: "Registry \<Rightarrow> string \<Rightarrow> ThinkingConfig option" where
  "ParseClaudeThinkingFromModel reg modelName =
     (case ParseThinkingSuffix modelName of
        (suffixLevel, isThinking) \<Rightarrow>
          if \<not> isThinking then None
          else case GetThinkingBudget reg modelName suffixLevel 0 of
                 (budget, _) \<Rightarrow>
                   if budget \<le> 0 then None
                   else Some \<lparr>Enabled = True, BudgetTokens = budget\<rparr>)"

text \<open>The receiver may be nil: \<open>None\<close>.\<close>

definition ApplyToClaude :: "ThinkingConfig option \<Rightarrow> json \<Rightarrow> json" where
  "ApplyToClaude t body =
     (case t of
        None \<Rightarrow> body
      | Some cfg \<Rightarrow>
          if \<not> Enabled cfg then body
          else if gjson_Exists (gjson_GetBytes body ''thinking'') then body
          else (let body = sjson_SetBytes body ''thinking.type'' (JString ''enabled'');
                    body = sjson_SetBytes body ''thinking.budget_tokens''
                             (JInt (int64 (BudgetTokens cfg)))
                in body))"

definition fallbackBuffer :: int where
  "fallbackBuffer = 4000"

definition EnsureClaudeMaxTokens :: "Registry \<Rightarrow> string \<Rightarrow> json \<Rightarrow> json" where
  "EnsureClaudeMaxTokens reg modelName body =
     (let thinkingType = gjson_String (gjson_GetBytes body ''thinking.type'')
      in if thinkingType \<noteq> Str ''enabled'' then body
         else
           (let budgetTokens = gjson_Int (gjson_GetBytes body ''thinking.budget_tokens'')
            in if budgetTokens \<le> 0 then body
               else
                 (let maxTokens = gjson_Int (gjson_GetBytes body ''max_tokens'');
                      maxCompletionTokens =
                        (case reg modelName of
                           Some modelInfo \<Rightarrow> MaxCompletionTokens modelInfo
                         | None \<Rightarrow> 0);
                      requiredMaxTokens =
                        (if maxCompletionTokens > 0 then int64 maxCompletionTokens
                         else int64 (budgetTokens + fallbackBuffer))
                  in if maxTokens < requiredMaxTokens
                     then sjson_SetBytes body ''max_tokens'' (JInt requiredMaxTokens)
                     else body)))"

section \<open>Claude bodies that are not JSON documents\<close>

text \<open>
  The body handed to \<^verbatim>\<open>ApplyToClaude\<close> is a byte string, and the libraries scan it
  without validating it. This section follows the two scanners on the raw bytes as far
  as the search for a key can be decided before any key is read; beyond that the result
  is \<open>None\<close>, and bodies that are JSON documents are treated in the model above.

  \<^verbatim>\<open>gjson.Get\<close> with a plain key looks for the first opening bracket. After an opening
  brace it looks for the next double quote, where a key starts, or closing brace, where
  the object ends for the search: then nothing is found, whatever bytes follow. Without a
  bracket, and at the end of the bytes, nothing is found either. \<open>Some False\<close> says that
  nothing is found.
\<close>

definition gjson_search_bytes :: "string \<Rightarrow> bool option" where
  "gjson_search_bytes body =
     (case dropWhile (\<lambda>c. c \<noteq> CHR ''{'' \<and> c \<noteq> CHR ''['') body of
        [] \<Rightarrow> Some False
      | c # rest \<Rightarrow>
          if c = CHR ''['' then None
          else (case dropWhile (\<lambda>c. c \<noteq> CHR 0x22 \<and> c \<noteq> CHR ''}'') rest of
                  [] \<Rightarrow> Some False
                | d # _ \<Rightarrow> if d = CHR ''}'' then Some False else None))"

text \<open>
  \<^verbatim>\<open>sjson\<close> writes a key as a quoted string (the keys and the word written here have
  no character that needs an escape) and an integer in decimal.
\<close>

definition appendStringify :: "string \<Rightarrow> string" where
  "appendStringify s = CHR 0x22 # s @ [CHR 0x22]"

fun decimal :: "nat \<Rightarrow> string" where
  "decimal n =
     (if n < 10 then [''0123456789'' ! n]
      else decimal (n div 10) @ [''0123456789'' ! (n mod 10)])"

definition FormatInt :: "int \<Rightarrow> string" where
  "FormatInt i = (if i < 0 then CHR ''-'' # decimal (nat (- i)) else decimal (nat i))"

fun appendBuild_bytes :: "string list \<Rightarrow> string \<Rightarrow> string" where
  "appendBuild_bytes [] raw = raw"
| "appendBuild_bytes [p] raw = appendStringify p @ '':'' @ raw"
| "appendBuild_bytes (p # ps) raw =
     appendStringify p @ '':{'' @ appendBuild_bytes ps raw @ ''}''"

text \<open>
  \<^verbatim>\<open>sjson\<close>, where the first key of the path was not found. The bytes up to the first
  one above the space are skipped; if an opening bracket follows, the rest is taken for
  the value, and otherwise an empty object is. A comma is needed if the first byte above
  the space after the opening bracket is not a closing one. For an object, the new
  member is put where the last closing brace is: the bytes before that brace, the comma,
  the member, and one closing brace. An array refuses the key.
\<close>

definition below_space :: "char \<Rightarrow> bool" where
  "below_space c = ((of_char c :: nat) \<le> 32)"

definition sjson_append_bytes :: "string \<Rightarrow> string list \<Rightarrow> string \<Rightarrow> string option" where
  "sjson_append_bytes body paths raw =
     (let found = dropWhile below_space body;
          Raw = (if found \<noteq> [] \<and> (hd found = CHR ''{'' \<or> hd found = CHR ''['')
                 then found else ''{}'');
          comma = (case dropWhile below_space (tl Raw) of
                     [] \<Rightarrow> False
                   | c # _ \<Rightarrow> c \<noteq> CHR ''}'' \<and> c \<noteq> CHR '']'')
      in if hd Raw = CHR ''['' then None
         else Some (butlast (rev (dropWhile (\<lambda>c. c \<noteq> CHR ''}'') (rev Raw)))
                    @ (if comma then '','' else [])
                    @ appendBuild_bytes paths raw @ ''}''))"

definition sjson_SetBytes_bytes :: "string \<Rightarrow> string \<Rightarrow> string \<Rightarrow> string option" where
  "sjson_SetBytes_bytes body path raw =
     (if parsePath path = [] then None
      else case gjson_search_bytes body of
             Some False \<Rightarrow> sjson_append_bytes body (parsePath path) raw
           | _ \<Rightarrow> None)"

text \<open>\<^verbatim>\<open>ApplyToClaude\<close> on the raw bytes, with the same steps as on a document.\<close>

definition ApplyToClaude_bytes :: "ThinkingConfig option \<Rightarrow> string \<Rightarrow> string option" where
  "ApplyToClaude_bytes t body =
     (case t of
        None \<Rightarrow> Some body
      | Some cfg \<Rightarrow>
          (if \<not> Enabled cfg then Some body
           else
             (case gjson_search_bytes body of
                None \<Rightarrow> None
              | Some found \<Rightarrow>
                  (if found then Some body
                   else
                     (case sjson_SetBytes_bytes body ''thinking.type''
                             (appendStringify ''enabled'') of
                        None \<Rightarrow> None
                      | Some body \<Rightarrow>
                          sjson_SetBytes_bytes body ''thinking.budget_tokens''
                            (FormatInt (int64 (BudgetTokens cfg))))))))"

section \<open>Token counting for Gemini payloads (package util)\<close>

text \<open>
  \<^verbatim>\<open>genai.Content\<close> with the two fields that are filled in; a part carries the text
  that \<^verbatim>\<open>Result.String()\<close> gave.
\<close>

record Content =
  Role :: gjson_text
  Parts :: "gjson_text list"

text \<open>
  The inner loop of \<^verbatim>\<open>containsAny\<close> slides a window of the length of \<open>sub\<close> over
  \<open>s\<close>, from the left, for as long as the window fits.
\<close>

fun window_match :: "string \<Rightarrow> string \<Rightarrow> bool" where
  "window_match sub [] = (sub = [])"
| "window_match sub (c # cs) =
     (if length (c # cs) < length sub then False
      else if take (length sub) (c # cs) = sub then True
      else window_match sub cs)"

definition containsAny :: "string \<Rightarrow> string list \<Rightarrow> bool" where
  "containsAny s substrs =
     list_ex (\<lambda>sub. length s \<ge> length sub \<and> window_match sub s) substrs"

definition normalizeModelForTokenizer :: "string \<Rightarrow> string" where
  "normalizeModelForTokenizer model =
     (if containsAny model [''gemini-3'', ''gemini-2.5'', ''gemini-2.0''] then ''gemini-2.0-flash''
      else if containsAny model [''gemini-1.5''] then ''gemini-1.5-flash''
      else if containsAny model [''gemini-1.0'', ''gemini-pro''] then ''gemini-1.0-pro''
      else ''gemini-2.0-flash'')"

text \<open>
  The tokenizer library is external: \<open>NewLocalTokenizer\<close> builds a tokenizer for a model
  name or fails, and \<open>CountTokens\<close> yields the total of a tokenizer on a list of contents
  or fails. Both are parameters. The cache is the package variable \<^verbatim>\<open>tokenizerCache\<close>,
  passed in and handed back; the locks have no effect on a single call. The second
  lookup is the one under the write lock.
\<close>

definition getOrCreateTokenizer ::
  "(string \<Rightarrow> string + 'tok) \<Rightarrow> (string \<rightharpoonup> 'tok) \<Rightarrow> string
     \<Rightarrow> (string + 'tok) \<times> (string \<rightharpoonup> 'tok)" where
  "getOrCreateTokenizer NewLocalTokenizer tokenizerCache model =
     (let baseModel = normalizeModelForTokenizer model
      in case tokenizerCache baseModel of
           Some tok \<Rightarrow> (Inr tok, tokenizerCache)
         | None \<Rightarrow>
             (case tokenizerCache baseModel of
                Some tok \<Rightarrow> (Inr tok, tokenizerCache)
              | None \<Rightarrow>
                  (case NewLocalTokenizer baseModel of
                     Inl err \<Rightarrow> (Inl err, tokenizerCache)
                   | Inr tok \<Rightarrow> (Inr tok, tokenizerCache(baseModel \<mapsto> tok)))))"

text \<open>\<^verbatim>\<open>Result.ForEach\<close> on an array visits its elements in order.\<close>

fun array_elements :: "Result \<Rightarrow> json list" where
  "array_elements (Some (JArray xs)) = xs"
| "array_elements r = []"

definition parseContent :: "Result \<Rightarrow> gjson_text \<Rightarrow> Content option" where
  "parseContent v role =
     (let parts = gjson_Get v ''parts''
      in if \<not> gjson_IsArray parts then None
         else
           (let genaiParts =
                  foldl (\<lambda>genaiParts part.
                           (let text = gjson_Get (Some part) ''text''
                            in if gjson_Exists text then genaiParts @ [gjson_String text]
                               else genaiParts))
                        [] (array_elements parts)
            in if length genaiParts = 0 then None
               else Some \<lparr>Role = role, Parts = genaiParts\<rparr>))"

text \<open>The choice between the two schemas, made at the start of the extraction.\<close>

definition payload_paths :: "json \<Rightarrow> string \<times> string" where
  "payload_paths payload =
     (if gjson_Exists (gjson_GetBytes payload ''request.contents'')
      then (''request.contents'', ''request.systemInstruction'')
      else (''contents'', ''systemInstruction''))"

definition extractContentsFromPayload :: "json \<Rightarrow> Content list" where
  "extractContentsFromPayload payload =
     (case payload_paths payload of
        (contentsPath, systemPath) \<Rightarrow>
          (let systemInstruction = gjson_GetBytes payload systemPath;
               contents =
                 (if gjson_Exists systemInstruction
                  then (case parseContent systemInstruction (Str ''user'') of
                          Some content \<Rightarrow> [content]
                        | None \<Rightarrow> [])
                  else []);
               contentsArr = gjson_GetBytes payload contentsPath
           in if \<not> gjson_IsArray contentsArr then contents
              else
                foldl (\<lambda>contents v.
                         (let role = gjson_String (gjson_Get (Some v) ''role'');
                              role = (if role = Str [] then Str ''user'' else role)
                          in case parseContent (Some v) role of
                               Some content \<Rightarrow> contents @ [content]
                             | None \<Rightarrow> contents))
                      contents (array_elements contentsArr)))"

definition CountTokensFromGeminiRequest ::
  "(string \<Rightarrow> string + 'tok) \<Rightarrow> ('tok \<Rightarrow> Content list \<Rightarrow> string + int)
     \<Rightarrow> (string \<rightharpoonup> 'tok) \<Rightarrow> string \<Rightarrow> json \<Rightarrow> int \<times> (string \<rightharpoonup> 'tok)" where
  "CountTokensFromGeminiRequest NewLocalTokenizer CountTokens tokenizerCache model payload =
     (case getOrCreateTokenizer NewLocalTokenizer tokenizerCache model of
        (Inl err, cache) \<Rightarrow> (0, cache)
      | (Inr tok, cache) \<Rightarrow>
          (let contents = extractContentsFromPayload payload
           in if length contents = 0 then (0, cache)
              else case CountTokens tok contents of
                     Inl err \<Rightarrow> (0, cache)
                   | Inr TotalTokens \<Rightarrow> (TotalTokens, cache)))"

text \<open>The wrapped form of a payload: the payload under the single key \<^verbatim>\<open>request\<close>.\<close>

definition wrap_request :: "json \<Rightarrow> json" where
  "wrap_request payload = JObject [(''request'', payload)]"






section \<open>Saving credentials (package misc)\<close>

text \<open>
  \<^verbatim>\<open>filepath.Clean\<close> of the standard library, for slash-separated paths: empty and
  dot elements vanish, a dot-dot element removes the element before it, is dropped at
  the root, and is kept at the front of a relative path; an empty result is a dot.
\<close>

fun split_slashes :: "string \<Rightarrow> string \<Rightarrow> string list" where
  "split_slashes acc [] = [rev acc]"
| "split_slashes acc (c # cs) =
     (if c = CHR ''/'' then rev acc # split_slashes [] cs else split_slashes (c # acc) cs)"

definition clean_element :: "bool \<Rightarrow> string list \<Rightarrow> string \<Rightarrow> string list" where
  "clean_element rooted out elem =
     (if elem = [] \<or> elem = ''.'' then out
      else if elem = ''..'' then
        (if out \<noteq> [] \<and> last out \<noteq> ''..'' then butlast out
         else if \<not> rooted then out @ [''..'']
         else out)
      else out @ [elem])"

fun join_slashes :: "string list \<Rightarrow> string" where
  "join_slashes [] = []"
| "join_slashes [e] = e"
| "join_slashes (e # es) = e @ CHR ''/'' # join_slashes es"

definition filepath_Clean :: "string \<Rightarrow> string" where
  "filepath_Clean path =
     (if path = [] then ''.''
      else
        (let rooted = (hd path = CHR ''/'');
             out = join_slashes (foldl (clean_element rooted) [] (split_slashes [] path))
         in if rooted then CHR ''/'' # out
            else if out = [] then ''.''
            else out))"

text \<open>
  \<^verbatim>\<open>strings.Replace(s, old, new, 1)\<close>: the leftmost occurrence of \<open>old\<close> is replaced;
  an empty \<open>old\<close> occurs at the very start.
\<close>

fun strings_Replace_1 :: "string \<Rightarrow> string \<Rightarrow> string \<Rightarrow> string" where
  "strings_Replace_1 [] old new = (if old = [] then new else [])"
| "strings_Replace_1 (c # cs) old new =
     (if prefix old (c # cs) then new @ drop (length old) (c # cs)
      else c # strings_Replace_1 cs old new)"

text \<open>
  The function prints to standard output; the model returns what is written. The
  value of the environment variable \<^verbatim>\<open>HOME\<close> is a parameter (empty when unset).
\<close>

definition LogSavingCredentials :: "string \<Rightarrow> string \<Rightarrow> string list" where
  "LogSavingCredentials HOME path =
     (if path = [] then []
      else
        (let clean = strings_Replace_1 (filepath_Clean path) HOME ''~''
         in [''Saving credentials to to '' @ clean @ [CHR 0x0A]]))"

section \<open>The Claude login flow (package login)\<close>

text \<open>
  Errors are values: \<^verbatim>\<open>fmt.Errorf\<close> with its message and, where the format wraps one
  with \<^verbatim>\<open>%w\<close>, its cause; an error handed over by a collaborator; and the structured
  error that \<^verbatim>\<open>claude.NewAuthenticationError\<close> builds from a code and a cause.
\<close>

datatype ErrorCode = ErrCodeExchangeFailed

datatype go_error =
    Errorf string "go_error option"
  | External string
  | AuthenticationError ErrorCode go_error

text \<open>
  The types of package claude, with the fields that \<^verbatim>\<open>Login\<close> reads; the other
  values are only passed from one collaborator to the next.
\<close>

record PKCECodes =
  CodeVerifier :: string
  CodeChallenge :: string

record ClaudeAuthBundle =
  APIKey :: string

record ClaudeTokenStorage =
  Email :: string

record LoginOptions =
  NoBrowser :: bool
  Metadata :: "(string \<times> string) list"

record Auth =
  ID :: string
  Provider :: string
  FileName :: string
  Storage :: ClaudeTokenStorage
  Metadata_auth :: "(string \<times> string) list"

text \<open>
  One read of a line from standard input with \<^verbatim>\<open>bufio.Scanner\<close>: the line, as its
  Unicode code points, or no token, with the scanner's error if it has one (none at the
  end of the input).
\<close>

type_synonym rune = nat

datatype scan_result = Scanned "rune list" | NoToken "go_error option"

text \<open>
  What \<^verbatim>\<open>Login\<close> calls: the generators, the authorisation service built from the
  configuration, the browser, the scanner. The configuration is of type \<open>'cfg\<close>.
\<close>

record 'cfg collaborators =
  GeneratePKCECodes :: "go_error + PKCECodes"
  GenerateRandomState :: "go_error + string"
  GenerateAuthURL :: "'cfg \<Rightarrow> string \<Rightarrow> PKCECodes \<Rightarrow> go_error + string \<times> string"
  browser_IsAvailable :: bool
  browser_OpenURL :: "string \<Rightarrow> go_error option"
  scanner_Scan :: scan_result
  ExchangeCodeForTokens ::
    "'cfg \<Rightarrow> rune list \<Rightarrow> string \<Rightarrow> PKCECodes \<Rightarrow> go_error + ClaudeAuthBundle"
  CreateTokenStorage :: "'cfg \<Rightarrow> ClaudeAuthBundle \<Rightarrow> ClaudeTokenStorage option"

text \<open>The effects of a run, in order: what is printed, and which calls go out.\<close>

datatype event =
    Print string
  | OpenURL string
  | Warnf go_error
  | Scan
  | Debug string
  | Exchange "rune list" string PKCECodes

fun is_Exchange :: "event \<Rightarrow> bool" where
  "is_Exchange (Exchange code state pkceCodes) = True"
| "is_Exchange e = False"

text \<open>
  \<^verbatim>\<open>unicode.IsSpace\<close> and \<^verbatim>\<open>strings.TrimSpace\<close>: white space is removed from both ends.
\<close>

definition IsSpace :: "rune \<Rightarrow> bool" where
  "IsSpace r =
     (r = 9 \<or> r = 10 \<or> r = 11 \<or> r = 12 \<or> r = 13 \<or> r = 32 \<or> r = 133 \<or> r = 160
      \<or> r = 5760 \<or> (8192 \<le> r \<and> r \<le> 8202) \<or> r = 8232 \<or> r = 8233 \<or> r = 8239
      \<or> r = 8287 \<or> r = 12288)"

definition TrimSpace :: "rune list \<Rightarrow> rune list" where
  "TrimSpace s = rev (dropWhile IsSpace (rev (dropWhile IsSpace s)))"

definition Provider_claude :: string where
  "Provider_claude = ''claude''"

text \<open>
  \<^verbatim>\<open>ClaudeAuthenticator.Login\<close>. A nil configuration and nil options are \<open>None\<close>; the
  context is only handed on to the exchange and is left out. The result is the value
  returned and the effects up to the return.
\<close>

definition Login ::
  "'cfg collaborators \<Rightarrow> 'cfg option \<Rightarrow> LoginOptions option \<Rightarrow> (go_error + Auth) \<times> event list" where
  "Login env cfg opts =
     (case cfg of
        None \<Rightarrow> (Inl (Errorf ''cliproxy auth: configuration is required'' None), [])
      | Some cfg \<Rightarrow>
     (let opts = (case opts of None \<Rightarrow> \<lparr>NoBrowser = False, Metadata = []\<rparr> | Some given \<Rightarrow> given)
      in case GeneratePKCECodes env of
        Inl err \<Rightarrow> (Inl (Errorf ''claude pkce generation failed'' (Some err)), [])
      | Inr pkceCodes \<Rightarrow>
     (case GenerateRandomState env of
        Inl err \<Rightarrow> (Inl (Errorf ''claude state generation failed'' (Some err)), [])
      | Inr state \<Rightarrow>
     (case GenerateAuthURL env cfg state pkceCodes of
        Inl err \<Rightarrow>
          (Inl (Errorf ''claude authorisation url generation failed'' (Some err)), [])
      | Inr (authURL, returnedState) \<Rightarrow>
     (let state = returnedState;
          opened =
            (if \<not> NoBrowser opts \<and> browser_IsAvailable env
             then [Print (''Opening browser for Claude authentication...'' @ [CHR 0x0A]),
                   OpenURL authURL]
                  @ (case browser_OpenURL env authURL of
                       Some err \<Rightarrow> [Warnf err]
                     | None \<Rightarrow> [])
             else []);
          prompted =
            opened
            @ [Print (''Visit the following URL to authenticate:'' @ [CHR 0x0A] @ authURL
                       @ [CHR 0x0A, CHR 0x0A]),
               Print ''Paste the authorisation code from the browser: '',
               Scan]
      in case scanner_Scan env of
        NoToken (Some err) \<Rightarrow>
          (Inl (Errorf ''failed to read authorisation code'' (Some err)), prompted)
      | NoToken None \<Rightarrow> (Inl (Errorf ''no authorisation code provided'' None), prompted)
      | Scanned text \<Rightarrow>
     (let code = TrimSpace text
      in if code = [] then (Inl (Errorf ''empty authorisation code provided'' None), prompted)
         else
     (let exchanged =
            prompted
            @ [Debug ''Claude authorisation code received; exchanging for tokens'',
               Exchange code state pkceCodes]
      in case ExchangeCodeForTokens env cfg code state pkceCodes of
        Inl err \<Rightarrow> (Inl (AuthenticationError ErrCodeExchangeFailed err), exchanged)
      | Inr authBundle \<Rightarrow>
     (case CreateTokenStorage env cfg authBundle of
        None \<Rightarrow>
          (Inl (Errorf ''claude token storage missing account information'' None), exchanged)
      | Some tokenStorage \<Rightarrow>
          if Email tokenStorage = []
          then (Inl (Errorf ''claude token storage missing account information'' None),
                exchanged)
          else
            (let fileName = ''claude-'' @ Email tokenStorage @ ''.json'';
                 metadata = [(''email'', Email tokenStorage)]
             in (Inr \<lparr>ID = fileName, Provider = Provider_claude, FileName = fileName,
                      Storage = tokenStorage, Metadata_auth = metadata\<rparr>,
                 exchanged
                 @ (if APIKey authBundle \<noteq> []
                    then [Print (''Claude API key obtained and stored'' @ [CHR 0x0A])]
                    else [])))))))))))"

section \<open>Example data\<close>

text \<open>
  A registry with one thinking model, keyed by its suffixed name, as in the scenarios
  of the specification: bounds 1024 and 32768 and the four level budgets.
\<close>

definition sonnet_thinking :: ThinkingSupport where
  "sonnet_thinking =
     \<lparr>Min_thinking = 1024, Max_thinking = 32768, DefaultLevel = [],
      Budgets = \<lparr>Low = 1024, Medium = 8192, High = 24576, Max_budget = 32768\<rparr>\<rparr>"

definition suffixed_registry :: Registry where
  "suffixed_registry =
     (\<lambda>name. if name = ''claude-sonnet-thinking-high''
              then Some \<lparr>Thinking = Some sonnet_thinking, MaxCompletionTokens = 0\<rparr>
              else None)"

text \<open>A registry that knows the base name only, with a completion limit of 64000.\<close>

definition base_registry :: Registry where
  "base_registry =
     (\<lambda>name. if name = ''claude-sonnet''
              then Some \<lparr>Thinking = Some sonnet_thinking, MaxCompletionTokens = 64000\<rparr>
              else None)"

text \<open>
  Claude bodies with thinking enabled: a small \<^verbatim>\<open>max_tokens\<close> with a budget of 20000,
  a \<^verbatim>\<open>max_tokens\<close> of 100000 with a budget of 1000, and a budget at the top of the
  \<^verbatim>\<open>int64\<close> range.
\<close>

definition body_small :: json where
  "body_small =
     JObject [(''max_tokens'', JInt 1000),
              (''thinking'', JObject [(''type'', JString ''enabled''),
                                      (''budget_tokens'', JInt 20000)])]"

definition body_large :: json where
  "body_large =
     JObject [(''max_tokens'', JInt 100000),
              (''thinking'', JObject [(''type'', JString ''enabled''),
                                      (''budget_tokens'', JInt 1000)])]"

definition body_huge_budget :: json where
  "body_huge_budget =
     JObject [(''max_tokens'', JInt 5),
              (''thinking'', JObject [(''type'', JString ''enabled''),
                                      (''budget_tokens'', JInt 9223372036854775807)])]"

text \<open>
  A Gemini payload in the native form, with a system instruction and one content whose
  second part is not text; and a payload that has a system instruction but no contents.
\<close>

definition native_payload :: json where
  "native_payload =
     JObject [(''contents'',
               JArray [JObject [(''role'', JString ''user''),
                                (''parts'', JArray [JObject [(''text'', JString ''hi'')],
                                                    JObject [(''inline_data'', JObject [])]])]]),
              (''systemInstruction'',
               JObject [(''parts'', JArray [JObject [(''text'', JString ''be brief'')]])])]"

definition system_only_payload :: json where
  "system_only_payload =
     JObject [(''systemInstruction'',
               JObject [(''parts'', JArray [JObject [(''text'', JString ''be brief'')]])])]"

text \<open>
  A stand-in for the tokenizer library: a tokenizer is the name it was built for, there
  is none for the 1.0 family, counting fails for the 1.5 family, and a count is the number
  of parts.
\<close>

definition toy_NewLocalTokenizer :: "string \<Rightarrow> string + string" where
  "toy_NewLocalTokenizer baseModel =
     (if baseModel = ''gemini-1.0-pro'' then Inl ''no tokenizer'' else Inr baseModel)"

definition toy_CountTokens :: "string \<Rightarrow> Content list \<Rightarrow> string + int" where
  "toy_CountTokens tok contents =
     (if tok = ''gemini-1.5-flash'' then Inl ''count failed''
      else Inr (int (length (concat (map Parts contents)))))"

text \<open>
  Collaborators of a login that reaches the prompt: the generators and the URL builder
  succeed, there is no browser, the user enters an empty line, and the exchange would be
  refused.
\<close>

definition toy_env :: "unit collaborators" where
  "toy_env =
     \<lparr>GeneratePKCECodes = Inr \<lparr>CodeVerifier = ''verifier'', CodeChallenge = ''challenge''\<rparr>,
      GenerateRandomState = Inr ''state-1'',
      GenerateAuthURL =
        (\<lambda>cfg state pkceCodes. Inr (''https://auth.example/authorize'', ''state-2'')),
      browser_IsAvailable = False,
      browser_OpenURL = (\<lambda>url. None),
      scanner_Scan = Scanned [],
      ExchangeCodeForTokens = (\<lambda>cfg code state pkceCodes. Inl (External ''invalid grant'')),
      CreateTokenStorage = (\<lambda>cfg bundle. None)\<rparr>"


text \<open>
  A thinking configuration with a budget of 5, and what the bytes \<^verbatim>\<open>{}}\<close> become when
  it is applied once and twice.
\<close>

definition thinking_config_5 :: "ThinkingConfig option" where
  "thinking_config_5 = Some \<lparr>Enabled = True, BudgetTokens = 5\<rparr>"

definition applied_once :: string where
  "applied_once =
     ''{}'' @ [CHR 0x22] @ ''thinking'' @ [CHR 0x22] @ '':{'' @ [CHR 0x22] @ ''type''
     @ [CHR 0x22] @ '':'' @ [CHR 0x22] @ ''enabled'' @ [CHR 0x22] @ ''}''
     @ [CHR 0x22] @ ''thinking'' @ [CHR 0x22] @ '':{'' @ [CHR 0x22] @ ''budget_tokens''
     @ [CHR 0x22] @ '':5}}''"

definition applied_twice :: string where
  "applied_twice =
     ''{}'' @ [CHR 0x22] @ ''thinking'' @ [CHR 0x22] @ '':{'' @ [CHR 0x22] @ ''type''
     @ [CHR 0x22] @ '':'' @ [CHR 0x22] @ ''enabled'' @ [CHR 0x22] @ ''}''
     @ [CHR 0x22] @ ''thinking'' @ [CHR 0x22] @ '':{'' @ [CHR 0x22] @ ''budget_tokens''
     @ [CHR 0x22] @ '':5}''
     @ [CHR 0x22] @ ''thinking'' @ [CHR 0x22] @ '':{'' @ [CHR 0x22] @ ''type''
     @ [CHR 0x22] @ '':'' @ [CHR 0x22] @ ''enabled'' @ [CHR 0x22] @ ''}''
     @ [CHR 0x22] @ ''thinking'' @ [CHR 0x22] @ '':{'' @ [CHR 0x22] @ ''budget_tokens''
     @ [CHR 0x22] @ '':5}}''"

section \<open>Results about the budget resolver\<close>

text \<open>
  C1. For a model whose registry record has a thinking sub-record, a user budget above 0
  is returned clamped to the model's bounds: first raised to the minimum when the minimum
  is positive and the budget is below it, then lowered to the maximum when the maximum is
  positive and the budget is above it. The suffix level plays no part, and the flag is
  whether the clamped budget is positive.
\<close>

theorem GetThinkingBudget_user_budget:
  assumes "reg model = Some info" and "Thinking info = Some ts" and "userBudget > 0"
  shows "GetThinkingBudget reg model suffixLevel userBudget =
           (let raised = (if Min_thinking ts > 0 \<and> userBudget < Min_thinking ts
                          then Min_thinking ts else userBudget);
                clamped = (if Max_thinking ts > 0 \<and> raised > Max_thinking ts
                           then Max_thinking ts else raised)
            in (clamped, clamped > 0))"
  using assms by (simp add: GetThinkingBudget_def Let_def conj_commute)

text \<open>The scenario of the specification with a user budget of 50000: clamped to 32768.\<close>

theorem GetThinkingBudget_user_budget_witness:
  "GetThinkingBudget suffixed_registry ''claude-sonnet-thinking-high'' ''low'' 50000
     = (32768, True)"
  using GetThinkingBudget_user_budget
    [of suffixed_registry "''claude-sonnet-thinking-high''"
        "\<lparr>Thinking = Some sonnet_thinking, MaxCompletionTokens = 0\<rparr>" sonnet_thinking
        50000 "''low''"]
  by (simp add: suffixed_registry_def sonnet_thinking_def)

section \<open>Results about the suffix parser\<close>

text \<open>
  C3. The parser returns a level and a flag, and nothing else: two names with different
  bases and the same suffix give the same result, so no base name can be read off it.
\<close>

theorem ParseThinkingSuffix_base_counterexample:
  "ParseThinkingSuffix ''a-thinking-low'' = (ThinkingLevelLow, True)
   \<and> ParseThinkingSuffix ''b-thinking-low'' = (ThinkingLevelLow, True)
   \<and> ''a'' \<noteq> ''b''"
  by (simp add: ParseThinkingSuffix_def suffix_to_prefix)

text \<open>
  C3, amended. For every base name, the name with the suffix of a level yields that
  level and the flag, and the bare suffix yields the level max and the flag. The flag is
  set exactly for the names that end in one of the five suffixes as bytes, so matching is
  case-sensitive: a suffix in capitals is not recognised.
\<close>

theorem ParseThinkingSuffix_levels:
  "ParseThinkingSuffix (base @ ''-thinking-'' @ ThinkingLevelLow) = (ThinkingLevelLow, True)
   \<and> ParseThinkingSuffix (base @ ''-thinking-'' @ ThinkingLevelMedium)
       = (ThinkingLevelMedium, True)
   \<and> ParseThinkingSuffix (base @ ''-thinking-'' @ ThinkingLevelHigh) = (ThinkingLevelHigh, True)
   \<and> ParseThinkingSuffix (base @ ''-thinking-'' @ ThinkingLevelMax) = (ThinkingLevelMax, True)
   \<and> ParseThinkingSuffix (base @ ''-thinking'') = (ThinkingLevelMax, True)
   \<and> snd (ParseThinkingSuffix modelName) =
       (suffix ''-thinking-max'' modelName \<or> suffix ''-thinking-high'' modelName
        \<or> suffix ''-thinking-medium'' modelName \<or> suffix ''-thinking-low'' modelName
        \<or> suffix ''-thinking'' modelName)
   \<and> ParseThinkingSuffix ''m-THINKING-low'' = ([], False)
   \<and> ParseThinkingSuffix ''m-thinking-Low'' = ([], False)"
  by (simp add: ParseThinkingSuffix_def ThinkingLevelLow_def ThinkingLevelMedium_def
      ThinkingLevelHigh_def ThinkingLevelMax_def suffix_to_prefix)

section \<open>Facts about the JSON library model\<close>

lemma parsePath_literals:
  "parsePath ''thinking'' = [''thinking'']"
  "parsePath ''thinking.type'' = [''thinking'', ''type'']"
  "parsePath ''thinking.budget_tokens'' = [''thinking'', ''budget_tokens'']"
  "parsePath ''max_tokens'' = [''max_tokens'']"
  "parsePath ''contents'' = [''contents'']"
  "parsePath ''systemInstruction'' = [''systemInstruction'']"
  "parsePath ''request.contents'' = [''request'', ''contents'']"
  "parsePath ''request.systemInstruction'' = [''request'', ''systemInstruction'']"
  by (simp_all add: parsePath_def)

lemma int64_range: "- (2 ^ 63) \<le> int64 x \<and> int64 x < 2 ^ 63"
  by (simp add: int64_def)

lemma int64_id: "- (2 ^ 63) \<le> x \<Longrightarrow> x < 2 ^ 63 \<Longrightarrow> int64 x = x"
  by (simp add: int64_def)

lemma int64_int64: "int64 (int64 x) = int64 x"
  using int64_range [of x] by (simp add: int64_id)

lemma parseInt_digits_int64:
  "int64 n = n \<Longrightarrow> int64 (fst (parseInt_digits n s)) = fst (parseInt_digits n s)"
  by (induction s arbitrary: n) (simp_all add: int64_int64 int64_id)

lemma parseInt_digits_result:
  "parseInt_digits n s = (m, ok) \<Longrightarrow> int64 n = n \<Longrightarrow> int64 m = m"
  using parseInt_digits_int64 [of n s] by simp

lemma parseInt_int64: "int64 (fst (parseInt s)) = fst (parseInt s)"
proof -
  have z: "int64 0 = 0" by (simp add: int64_id)
  show ?thesis
    by (auto simp: parseInt_def Let_def int64_int64 z split: prod.splits
        dest: parseInt_digits_result [OF _ z])
qed

text \<open>Every reading of a value as an integer is an \<^verbatim>\<open>int64\<close>.\<close>

lemma gjson_Int_int64: "int64 (gjson_Int r) = gjson_Int r"
proof (cases r)
  case None
  then show ?thesis by (simp add: int64_id)
next
  case (Some j)
  then show ?thesis by (cases j) (simp_all add: int64_id int64_int64 parseInt_int64)
qed

lemma map_of_replace_first_same:
  "map_of kvs k = Some x \<Longrightarrow> map_of (replace_first k v kvs) k = Some v"
  by (induction kvs) (auto split: if_splits)

lemma map_of_replace_first_other:
  "k' \<noteq> k \<Longrightarrow> map_of (replace_first k v kvs) k' = map_of kvs k'"
  by (induction kvs) auto

lemma map_of_append_new:
  "map_of kvs k = None \<Longrightarrow> map_of (kvs @ [(k, v)]) k = Some v"
  by (simp add: map_add_def)

lemma map_of_append_other:
  "k' \<noteq> k \<Longrightarrow> map_of (kvs @ [(k, v)]) k' = map_of kvs k'"
  by (simp add: map_add_def split: option.splits)

text \<open>The search for a single key finds the first member with that key.\<close>

lemma gjson_Get_members_key: "gjson_Get_members kvs k [] = map_of kvs k"
  by (induction kvs) auto

lemma gjson_Get_key_object: "gjson_Get_key (JObject kvs) k = map_of kvs k"
  by (simp add: gjson_Get_key_def gjson_Get_members_key)

text \<open>A write to one key does not change what a path through another key finds.\<close>

lemma gjson_Get_members_replace_first_other:
  "k' \<noteq> k \<Longrightarrow> gjson_Get_members (replace_first k v kvs) k' ks = gjson_Get_members kvs k' ks"
  by (induction kvs) (auto split: option.splits)

lemma gjson_Get_members_append_other:
  "k' \<noteq> k \<Longrightarrow> gjson_Get_members (kvs @ [(k, v)]) k' ks = gjson_Get_members kvs k' ks"
  by (induction kvs) (auto split: option.splits)

text \<open>Writing \<^verbatim>\<open>max_tokens\<close> into an object: the member reads back, the others stay.\<close>

lemma set_max_tokens_object:
  "sjson_SetBytes (JObject kvs) ''max_tokens'' v =
     (case map_of kvs ''max_tokens'' of
        Some x \<Rightarrow> JObject (replace_first ''max_tokens'' v kvs)
      | None \<Rightarrow> JObject (kvs @ [(''max_tokens'', v)]))"
  by (simp add: sjson_SetBytes_def parsePath_literals gjson_Get_key_object
      split: option.splits)

lemma GetBytes_after_set_max_tokens:
  "gjson_GetBytes (sjson_SetBytes (JObject kvs) ''max_tokens'' v) ''max_tokens'' = Some v"
  "gjson_GetBytes (sjson_SetBytes (JObject kvs) ''max_tokens'' v) ''thinking.type''
     = gjson_GetBytes (JObject kvs) ''thinking.type''"
  "gjson_GetBytes (sjson_SetBytes (JObject kvs) ''max_tokens'' v) ''thinking.budget_tokens''
     = gjson_GetBytes (JObject kvs) ''thinking.budget_tokens''"
  by (simp_all add: gjson_GetBytes_def parsePath_literals set_max_tokens_object
      gjson_Get_members_key map_of_replace_first_same map_of_append_new
      gjson_Get_members_replace_first_other gjson_Get_members_append_other
      split: option.splits del: map_of_append)

text \<open>A body in which \<^verbatim>\<open>thinking.type\<close> reads as a string is an object.\<close>

lemma thinking_enabled_object:
  assumes "gjson_String (gjson_GetBytes body ''thinking.type'') = Str ''enabled''"
  obtains kvs where "body = JObject kvs"
  using assms by (cases body) (simp_all add: gjson_GetBytes_def parsePath_literals)

text \<open>
  The two writes of \<^verbatim>\<open>ApplyToClaude\<close> on a body without a \<^verbatim>\<open>thinking\<close> member either
  leave the body as it is (an array refuses the key) or create the member.
\<close>

lemma thinking_written:
  assumes "\<not> gjson_Exists (gjson_GetBytes body ''thinking'')"
  shows "sjson_SetBytes (sjson_SetBytes body ''thinking.type'' (JString ''enabled''))
           ''thinking.budget_tokens'' (JInt n) = body
         \<or> gjson_Exists (gjson_GetBytes
              (sjson_SetBytes (sjson_SetBytes body ''thinking.type'' (JString ''enabled''))
                 ''thinking.budget_tokens'' (JInt n)) ''thinking'')"
proof (cases body)
  case (JObject kvs)
  with assms have absent: "map_of kvs ''thinking'' = None"
    by (simp add: gjson_Exists_def gjson_GetBytes_def parsePath_literals gjson_Get_members_key)
  show ?thesis
    unfolding JObject using absent
    by (simp add: gjson_Exists_def gjson_GetBytes_def sjson_SetBytes_def parsePath_literals
        gjson_Get_key_object gjson_Get_members_key map_of_append_new
        map_of_replace_first_same del: map_of_append)
next
  case (JArray xs)
  then show ?thesis
    by (simp add: sjson_SetBytes_def parsePath_literals gjson_Get_key_def)
qed (simp_all add: gjson_Exists_def gjson_GetBytes_def sjson_SetBytes_def parsePath_literals
      gjson_Get_key_def)

lemma ApplyToClaude_idempotent:
  "ApplyToClaude t (ApplyToClaude t body) = ApplyToClaude t body"
proof (cases t)
  case None
  then show ?thesis by (simp add: ApplyToClaude_def)
next
  case (Some cfg)
  show ?thesis
  proof (cases "Enabled cfg \<and> \<not> gjson_Exists (gjson_GetBytes body ''thinking'')")
    case False
    then show ?thesis using Some by (auto simp: ApplyToClaude_def)
  next
    case True
    then have absent: "\<not> gjson_Exists (gjson_GetBytes body ''thinking'')" by simp
    show ?thesis
      using True Some thinking_written [OF absent, of "int64 (BudgetTokens cfg)"]
      by (auto simp: ApplyToClaude_def Let_def)
  qed
qed

lemma EnsureClaudeMaxTokens_idempotent:
  "EnsureClaudeMaxTokens reg modelName (EnsureClaudeMaxTokens reg modelName body)
     = EnsureClaudeMaxTokens reg modelName body"
proof (cases "gjson_String (gjson_GetBytes body ''thinking.type'') = Str ''enabled''")
  case False
  then show ?thesis by (simp add: EnsureClaudeMaxTokens_def)
next
  case True
  then obtain kvs where b: "body = JObject kvs" by (rule thinking_enabled_object)
  show ?thesis
    using True unfolding b
    by (simp add: EnsureClaudeMaxTokens_def Let_def GetBytes_after_set_max_tokens int64_int64)
qed

section \<open>Results about the Claude request translator\<close>

text \<open>
  C2. The claim's second half fails: with a completion limit of 64000 in the registry
  and a body that already asks for 100000 tokens, the body is left as it is, and its
  \<^verbatim>\<open>max_tokens\<close> is 100000, not 64000. The first half fails at the top of the integer
  range: for a budget of 9223372036854775807 the sum with the buffer wraps around to a
  negative number, the body is left as it is, and its \<^verbatim>\<open>max_tokens\<close> stays 5.
\<close>

theorem EnsureClaudeMaxTokens_equal_counterexample:
  "gjson_String (gjson_GetBytes body_large ''thinking.type'') = Str ''enabled''
   \<and> gjson_Int (gjson_GetBytes body_large ''thinking.budget_tokens'') = 1000
   \<and> base_registry ''claude-sonnet''
       = Some \<lparr>Thinking = Some sonnet_thinking, MaxCompletionTokens = 64000\<rparr>
   \<and> EnsureClaudeMaxTokens base_registry ''claude-sonnet'' body_large = body_large
   \<and> gjson_Int (gjson_GetBytes
        (EnsureClaudeMaxTokens base_registry ''claude-sonnet'' body_large) ''max_tokens'')
       = 100000
   \<and> gjson_String (gjson_GetBytes body_huge_budget ''thinking.type'') = Str ''enabled''
   \<and> gjson_Int (gjson_GetBytes body_huge_budget ''thinking.budget_tokens'')
       = 9223372036854775807
   \<and> EnsureClaudeMaxTokens (\<lambda>name. None) ''claude-sonnet'' body_huge_budget
       = body_huge_budget
   \<and> gjson_Int (gjson_GetBytes
        (EnsureClaudeMaxTokens (\<lambda>name. None) ''claude-sonnet'' body_huge_budget)
        ''max_tokens'') = 5"
  by (simp add: EnsureClaudeMaxTokens_def body_large_def body_huge_budget_def
      base_registry_def gjson_GetBytes_def parsePath_literals Let_def int64_def
      fallbackBuffer_def)

text \<open>
  C2, amended. On a body whose \<^verbatim>\<open>thinking.type\<close> is \<^verbatim>\<open>enabled\<close> and whose
  \<^verbatim>\<open>thinking.budget_tokens\<close> reads as \<open>B > 0\<close>, the \<^verbatim>\<open>max_tokens\<close> of the result is
  the larger of the old \<^verbatim>\<open>max_tokens\<close> and the required value. The required value is
  \<open>B + 4000\<close> when the completion limit is unknown (the model is absent from the registry
  or its limit is not positive), provided that this sum is an \<^verbatim>\<open>int64\<close>; it is the
  completion limit when that is positive. So \<^verbatim>\<open>max_tokens\<close> is at least the required
  value, and equals the completion limit only when the body did not ask for more.
\<close>

theorem EnsureClaudeMaxTokens_floor:
  assumes enabled: "gjson_String (gjson_GetBytes body ''thinking.type'') = Str ''enabled''"
    and budget: "gjson_Int (gjson_GetBytes body ''thinking.budget_tokens'') = B" "B > 0"
    and limit: "limit = (case reg modelName of
                           Some modelInfo \<Rightarrow> MaxCompletionTokens modelInfo
                         | None \<Rightarrow> 0)"
    and old: "old = gjson_Int (gjson_GetBytes body ''max_tokens'')"
    and new: "new = gjson_Int (gjson_GetBytes
                      (EnsureClaudeMaxTokens reg modelName body) ''max_tokens'')"
  shows "(limit \<le> 0 \<and> B + 4000 < 2 ^ 63 \<longrightarrow> new = max old (B + 4000) \<and> new \<ge> B + 4000)
         \<and> (0 < limit \<and> limit < 2 ^ 63 \<longrightarrow> new = max old limit \<and> new \<ge> limit)"
proof -
  obtain kvs where b: "body = JObject kvs" using enabled by (rule thinking_enabled_object)
  have fits: "int64 limit = limit" if "0 < limit" "limit < 2 ^ 63"
    using that by (simp add: int64_id)
  have sum: "int64 (B + 4000) = B + 4000" if "B + 4000 < 2 ^ 63"
    using that budget(2) by (simp add: int64_id)
  have unknown: "new = max old (B + 4000)" if "limit \<le> 0" "B + 4000 < 2 ^ 63"
    using enabled budget that limit old new sum unfolding b
    by (auto simp: EnsureClaudeMaxTokens_def Let_def GetBytes_after_set_max_tokens
        fallbackBuffer_def max_def)
  have known: "new = max old limit" if "0 < limit" "limit < 2 ^ 63"
    using enabled budget that limit old new fits unfolding b
    by (auto simp: EnsureClaudeMaxTokens_def Let_def GetBytes_after_set_max_tokens
        max_def)
  show ?thesis using unknown known by auto
qed

text \<open>
  The scenario of the specification: a body with \<^verbatim>\<open>max_tokens\<close> 1000 and a budget of
  20000, with no completion limit known, ends with 24000; with a limit of 64000 it ends
  with 64000.
\<close>

theorem EnsureClaudeMaxTokens_floor_witness:
  "gjson_Int (gjson_GetBytes
     (EnsureClaudeMaxTokens (\<lambda>name. None) ''claude-sonnet'' body_small) ''max_tokens'') = 24000
   \<and> gjson_Int (gjson_GetBytes
       (EnsureClaudeMaxTokens base_registry ''claude-sonnet'' body_small) ''max_tokens'') = 64000"
proof -
  have en: "gjson_String (gjson_GetBytes body_small ''thinking.type'') = Str ''enabled''"
    by (simp add: body_small_def gjson_GetBytes_def parsePath_literals)
  have bud: "gjson_Int (gjson_GetBytes body_small ''thinking.budget_tokens'') = 20000"
    by (simp add: body_small_def gjson_GetBytes_def parsePath_literals int64_def)
  have old: "gjson_Int (gjson_GetBytes body_small ''max_tokens'') = 1000"
    by (simp add: body_small_def gjson_GetBytes_def parsePath_literals int64_def)
  have lim: "(case base_registry ''claude-sonnet'' of
                Some modelInfo \<Rightarrow> MaxCompletionTokens modelInfo | None \<Rightarrow> 0) = 64000"
    by (simp add: base_registry_def)
  show ?thesis
    using EnsureClaudeMaxTokens_floor [OF en bud _ refl refl refl, of "\<lambda>name. None" "''claude-sonnet''"]
      EnsureClaudeMaxTokens_floor [OF en bud _ refl refl refl, of base_registry "''claude-sonnet''"]
    by (simp add: old lim)
qed

lemma FormatInt_5: "FormatInt (int64 5) = ''5''"
  by (simp add: FormatInt_def int64_def)

text \<open>
  C4. Idempotence fails on bytes that are not a JSON document. On the body \<^verbatim>\<open>{}}\<close> the
  search for \<^verbatim>\<open>thinking\<close> ends at the first closing brace, while the write puts the new
  member before the last one: the two members written by the first application are not
  seen by the second, which writes them again.
\<close>

theorem ApplyToClaude_bytes_counterexample:
  "ApplyToClaude_bytes thinking_config_5 ''{}}'' = Some applied_once
   \<and> ApplyToClaude_bytes thinking_config_5 applied_once = Some applied_twice
   \<and> applied_twice \<noteq> applied_once"
  by (simp add: ApplyToClaude_bytes_def thinking_config_5_def applied_once_def
      applied_twice_def gjson_search_bytes_def sjson_SetBytes_bytes_def
      sjson_append_bytes_def parsePath_literals below_space_def appendStringify_def
      FormatInt_5 Let_def)

text \<open>
  C4, amended. On every body that is a JSON document, both rewrites are idempotent: for
  every receiver (nil included), applying the thinking configuration twice gives what
  applying it once gives; and for every registry and model name the same holds of
  \<^verbatim>\<open>EnsureClaudeMaxTokens\<close>.
\<close>

theorem translator_idempotent:
  "ApplyToClaude t (ApplyToClaude t body) = ApplyToClaude t body
   \<and> EnsureClaudeMaxTokens reg modelName (EnsureClaudeMaxTokens reg modelName body)
       = EnsureClaudeMaxTokens reg modelName body"
  by (simp add: ApplyToClaude_idempotent EnsureClaudeMaxTokens_idempotent)

section \<open>Results about the registry lookup\<close>

text \<open>The resolver reads the registry at the given name and nowhere else.\<close>

lemma GetThinkingBudget_cong:
  "reg modelName = reg' modelName \<Longrightarrow>
     GetThinkingBudget reg modelName suffixLevel userBudget
       = GetThinkingBudget reg' modelName suffixLevel userBudget"
  by (simp add: GetThinkingBudget_def)

lemma GetThinkingBudget_positive:
  "0 < fst (GetThinkingBudget reg modelName suffixLevel userBudget) \<Longrightarrow>
     (\<exists>info. reg modelName = Some info \<and> Thinking info \<noteq> None)"
  by (cases "reg modelName"; cases "Thinking (the (reg modelName))")
     (simp_all add: GetThinkingBudget_def)

lemma ParseClaudeThinkingFromModel_cong:
  "reg modelName = reg' modelName \<Longrightarrow>
     ParseClaudeThinkingFromModel reg modelName = ParseClaudeThinkingFromModel reg' modelName"
  by (simp only: ParseClaudeThinkingFromModel_def
      GetThinkingBudget_cong [of reg modelName reg'])

lemma ParseClaudeThinkingFromModel_Some:
  assumes "ParseClaudeThinkingFromModel reg modelName = Some cfg"
  shows "(\<exists>info. reg modelName = Some info \<and> Thinking info \<noteq> None)
         \<and> snd (ParseThinkingSuffix modelName) \<and> 0 < BudgetTokens cfg"
proof -
  obtain suffixLevel isThinking
    where p: "ParseThinkingSuffix modelName = (suffixLevel, isThinking)"
    by (cases "ParseThinkingSuffix modelName")
  obtain budget flag
    where g: "GetThinkingBudget reg modelName suffixLevel 0 = (budget, flag)"
    by (cases "GetThinkingBudget reg modelName suffixLevel 0")
  from assms p g
  have facts: "isThinking" "0 < budget" "cfg = \<lparr>Enabled = True, BudgetTokens = budget\<rparr>"
    by (auto simp: ParseClaudeThinkingFromModel_def split: if_splits)
  from g facts(2) have "0 < fst (GetThinkingBudget reg modelName suffixLevel 0)" by simp
  then have "\<exists>info. reg modelName = Some info \<and> Thinking info \<noteq> None"
    by (rule GetThinkingBudget_positive)
  with p facts show ?thesis by simp
qed

text \<open>
  C7. The parser's result is a level and a flag, with no name in it, and the resolver and
  \<^verbatim>\<open>ParseClaudeThinkingFromModel\<close> consult the registry at the name they are given,
  suffix included: two registries that agree at that name give the same results, whatever
  they hold under other names. So a budget above 0, and a thinking configuration, come
  only from a registry that has an entry with a thinking sub-record under the full name.
\<close>

theorem registry_lookup_by_full_name:
  "(reg modelName = reg' modelName \<longrightarrow>
      GetThinkingBudget reg modelName suffixLevel userBudget
        = GetThinkingBudget reg' modelName suffixLevel userBudget
      \<and> ParseClaudeThinkingFromModel reg modelName
          = ParseClaudeThinkingFromModel reg' modelName)
   \<and> (0 < fst (GetThinkingBudget reg modelName suffixLevel userBudget) \<longrightarrow>
        (\<exists>info. reg modelName = Some info \<and> Thinking info \<noteq> None))
   \<and> (ParseClaudeThinkingFromModel reg modelName = Some cfg \<longrightarrow>
        (\<exists>info. reg modelName = Some info \<and> Thinking info \<noteq> None)
        \<and> snd (ParseThinkingSuffix modelName) \<and> 0 < BudgetTokens cfg)"
  using GetThinkingBudget_cong [of reg modelName reg' suffixLevel userBudget]
    ParseClaudeThinkingFromModel_cong [of reg modelName reg']
    GetThinkingBudget_positive [of reg modelName suffixLevel userBudget]
    ParseClaudeThinkingFromModel_Some [of reg modelName cfg]
  by blast

text \<open>
  With the suffixed name in the registry the level high resolves to 24576; a registry
  that knows only the base name yields nothing for the suffixed name.
\<close>

theorem registry_lookup_by_full_name_witness:
  "ParseClaudeThinkingFromModel suffixed_registry ''claude-sonnet-thinking-high''
     = Some \<lparr>Enabled = True, BudgetTokens = 24576\<rparr>
   \<and> (\<exists>info. suffixed_registry ''claude-sonnet-thinking-high'' = Some info
              \<and> Thinking info \<noteq> None)
   \<and> base_registry ''claude-sonnet'' \<noteq> None
   \<and> GetThinkingBudget base_registry ''claude-sonnet-thinking-high'' ''high'' 0 = (0, False)
   \<and> ParseClaudeThinkingFromModel base_registry ''claude-sonnet-thinking-high'' = None"
proof -
  have parsed: "ParseClaudeThinkingFromModel suffixed_registry ''claude-sonnet-thinking-high''
     = Some \<lparr>Enabled = True, BudgetTokens = 24576\<rparr>"
    by (simp add: ParseClaudeThinkingFromModel_def ParseThinkingSuffix_def suffix_to_prefix
        GetThinkingBudget_def suffixed_registry_def sonnet_thinking_def Let_def
        ThinkingBudgets_zero_def ThinkingLevelHigh_def ThinkingLevelLow_def
        ThinkingLevelMedium_def ThinkingLevelMax_def)
  have miss: "base_registry ''claude-sonnet-thinking-high''
                = (\<lambda>name. None) ''claude-sonnet-thinking-high''"
    by (simp add: base_registry_def)
  have none:
    "GetThinkingBudget (\<lambda>name. None) ''claude-sonnet-thinking-high'' ''high'' 0 = (0, False)"
    "ParseClaudeThinkingFromModel (\<lambda>name. None) ''claude-sonnet-thinking-high'' = None"
    by (simp_all add: GetThinkingBudget_def ParseClaudeThinkingFromModel_def split: prod.splits)
  show ?thesis
    using registry_lookup_by_full_name
      [of suffixed_registry "''claude-sonnet-thinking-high''" suffixed_registry "''high''" 0
          "\<lparr>Enabled = True, BudgetTokens = 24576\<rparr>"]
      registry_lookup_by_full_name
      [of base_registry "''claude-sonnet-thinking-high''" "\<lambda>name. None" "''high''" 0]
    by (simp add: parsed miss none base_registry_def)
qed

section \<open>Results about the token counter\<close>

lemma wrapped_GetBytes:
  "gjson_GetBytes (wrap_request payload) ''request.contents''
     = gjson_GetBytes payload ''contents''"
  "gjson_GetBytes (wrap_request payload) ''request.systemInstruction''
     = gjson_GetBytes payload ''systemInstruction''"
  by (simp_all add: wrap_request_def gjson_GetBytes_def parsePath_literals
      split: option.splits)

text \<open>
  C5. A payload in the native form has \<^verbatim>\<open>contents\<close> at its root and nothing under
  \<^verbatim>\<open>request.contents\<close>. For such a payload, for every model name, tokenizer library
  and cache, the wrapped form yields the same contents, hence the same count, as the
  native form. For any payload, the wrapped pair of paths is the one chosen exactly when
  \<^verbatim>\<open>request.contents\<close> exists, and the native pair otherwise.
\<close>

theorem wrapped_payload_same_count:
  assumes "gjson_Exists (gjson_GetBytes payload ''contents'')"
    and "\<not> gjson_Exists (gjson_GetBytes payload ''request.contents'')"
  shows "extractContentsFromPayload (wrap_request payload) = extractContentsFromPayload payload
         \<and> fst (CountTokensFromGeminiRequest NewLocalTokenizer CountTokens tokenizerCache model
                  (wrap_request payload))
             = fst (CountTokensFromGeminiRequest NewLocalTokenizer CountTokens tokenizerCache
                      model payload)
         \<and> (payload_paths other = (''request.contents'', ''request.systemInstruction''))
             = gjson_Exists (gjson_GetBytes other ''request.contents'')
         \<and> (payload_paths other = (''contents'', ''systemInstruction''))
             = (\<not> gjson_Exists (gjson_GetBytes other ''request.contents''))"
proof -
  have same: "extractContentsFromPayload (wrap_request payload)
                = extractContentsFromPayload payload"
    using assms by (simp add: extractContentsFromPayload_def payload_paths_def wrapped_GetBytes)
  have count: "fst (CountTokensFromGeminiRequest NewLocalTokenizer CountTokens tokenizerCache
                      model (wrap_request payload))
                = fst (CountTokensFromGeminiRequest NewLocalTokenizer CountTokens
                         tokenizerCache model payload)"
    by (simp only: CountTokensFromGeminiRequest_def same)
  have paths: "(payload_paths other = (''request.contents'', ''request.systemInstruction''))
                 = gjson_Exists (gjson_GetBytes other ''request.contents'')"
    "(payload_paths other = (''contents'', ''systemInstruction''))
       = (\<not> gjson_Exists (gjson_GetBytes other ''request.contents''))"
    by (simp_all add: payload_paths_def)
  show ?thesis
    using same count paths by simp
qed

text \<open>
  The example payload, on a model of the Gemini 3 family: both forms give the system
  instruction and the one text part, and the count 2.
\<close>

theorem wrapped_payload_same_count_witness:
  "extractContentsFromPayload (wrap_request native_payload)
     = [\<lparr>Role = Str ''user'', Parts = [Str ''be brief'']\<rparr>,
        \<lparr>Role = Str ''user'', Parts = [Str ''hi'']\<rparr>]
   \<and> extractContentsFromPayload native_payload
     = [\<lparr>Role = Str ''user'', Parts = [Str ''be brief'']\<rparr>,
        \<lparr>Role = Str ''user'', Parts = [Str ''hi'']\<rparr>]
   \<and> fst (CountTokensFromGeminiRequest toy_NewLocalTokenizer toy_CountTokens Map.empty
            ''gemini-3-pro'' (wrap_request native_payload))
       = fst (CountTokensFromGeminiRequest toy_NewLocalTokenizer toy_CountTokens Map.empty
                ''gemini-3-pro'' native_payload)"
proof -
  have c: "gjson_Exists (gjson_GetBytes native_payload ''contents'')"
    by (simp add: native_payload_def gjson_GetBytes_def parsePath_literals gjson_Exists_def)
  have r: "\<not> gjson_Exists (gjson_GetBytes native_payload ''request.contents'')"
    by (simp add: native_payload_def gjson_GetBytes_def parsePath_literals gjson_Exists_def)
  have native: "extractContentsFromPayload native_payload
     = [\<lparr>Role = Str ''user'', Parts = [Str ''be brief'']\<rparr>,
        \<lparr>Role = Str ''user'', Parts = [Str ''hi'']\<rparr>]"
    by (simp add: extractContentsFromPayload_def payload_paths_def native_payload_def
        gjson_GetBytes_def gjson_Get_def parsePath_literals gjson_Exists_def gjson_IsArray_def
        parseContent_def parsePath_def)
  show ?thesis
    using wrapped_payload_same_count
      [OF c r, of toy_NewLocalTokenizer toy_CountTokens Map.empty "''gemini-3-pro''"]
    by (simp add: native)
qed

text \<open>
  Why the native form must have \<^verbatim>\<open>contents\<close>: a payload with a system instruction and
  no contents is read in the native form, and read as empty once it is wrapped.
\<close>

lemma wrapped_system_only_payload:
  "extractContentsFromPayload system_only_payload
     = [\<lparr>Role = Str ''user'', Parts = [Str ''be brief'']\<rparr>]
   \<and> extractContentsFromPayload (wrap_request system_only_payload) = []"
  by (simp add: extractContentsFromPayload_def payload_paths_def wrap_request_def
      system_only_payload_def gjson_GetBytes_def gjson_Get_def parsePath_literals
      gjson_Exists_def gjson_IsArray_def parseContent_def parsePath_def)










text \<open>
  One call after another: the cache only grows, and a name that is in the cache is
  answered from it without a construction.
\<close>

lemma getOrCreateTokenizer_cache:
  "(\<forall>key tok. tokenizerCache key = Some tok \<longrightarrow>
       snd (getOrCreateTokenizer NewLocalTokenizer tokenizerCache model) key = Some tok)
   \<and> (tokenizerCache (normalizeModelForTokenizer model) = Some tok \<longrightarrow>
        getOrCreateTokenizer NewLocalTokenizer tokenizerCache model
          = (Inr tok, tokenizerCache))"
  by (auto simp: getOrCreateTokenizer_def Let_def split: option.splits sum.splits)

section \<open>Results about the login flow\<close>

text \<open>
  C8. Take a run of the Claude login that reaches the prompt for the authorisation code:
  a configuration is given, and the PKCE codes, the state and the authorisation URL are
  produced. If the scanner has no line to give, with an error or without one (standard
  input closed), or gives a line that is empty once white space is trimmed, then
  \<^verbatim>\<open>Login\<close> returns the error that reports the missing input, and the exchange of the
  code for tokens is not among its effects. If a code is entered and the exchange fails,
  the failure is returned inside an authentication error with the code
  \<^verbatim>\<open>ErrCodeExchangeFailed\<close>.
\<close>

theorem Login_code_prompt:
  assumes "GeneratePKCECodes env = Inr pkceCodes"
    and "GenerateRandomState env = Inr state"
    and "GenerateAuthURL env cfg state pkceCodes = Inr (authURL, returnedState)"
  shows "(scanner_Scan env = NoToken (Some err) \<longrightarrow>
            fst (Login env (Some cfg) opts)
              = Inl (Errorf ''failed to read authorisation code'' (Some err))
            \<and> \<not> list_ex is_Exchange (snd (Login env (Some cfg) opts)))
         \<and> (scanner_Scan env = NoToken None \<longrightarrow>
            fst (Login env (Some cfg) opts)
              = Inl (Errorf ''no authorisation code provided'' None)
            \<and> \<not> list_ex is_Exchange (snd (Login env (Some cfg) opts)))
         \<and> (scanner_Scan env = Scanned text \<and> TrimSpace text = [] \<longrightarrow>
            fst (Login env (Some cfg) opts)
              = Inl (Errorf ''empty authorisation code provided'' None)
            \<and> \<not> list_ex is_Exchange (snd (Login env (Some cfg) opts)))
         \<and> (scanner_Scan env = Scanned text \<and> TrimSpace text \<noteq> []
            \<and> ExchangeCodeForTokens env cfg (TrimSpace text) returnedState pkceCodes
                = Inl cause \<longrightarrow>
            fst (Login env (Some cfg) opts)
              = Inl (AuthenticationError ErrCodeExchangeFailed cause)
            \<and> list_ex is_Exchange (snd (Login env (Some cfg) opts)))"
  using assms by (auto simp: Login_def Let_def split: option.splits)

text \<open>
  The four ways to leave the prompt without a code, and a code whose exchange is
  refused, on the example collaborators.
\<close>

theorem Login_code_prompt_witness:
  "fst (Login toy_env (Some ()) None) = Inl (Errorf ''empty authorisation code provided'' None)
   \<and> \<not> list_ex is_Exchange (snd (Login toy_env (Some ()) None))
   \<and> fst (Login (toy_env\<lparr>scanner_Scan := Scanned [32, 9]\<rparr>) (Some ()) None)
       = Inl (Errorf ''empty authorisation code provided'' None)
   \<and> fst (Login (toy_env\<lparr>scanner_Scan := NoToken None\<rparr>) (Some ()) None)
       = Inl (Errorf ''no authorisation code provided'' None)
   \<and> \<not> list_ex is_Exchange
          (snd (Login (toy_env\<lparr>scanner_Scan := NoToken None\<rparr>) (Some ()) None))
   \<and> fst (Login (toy_env\<lparr>scanner_Scan := NoToken (Some (External ''read error''))\<rparr>)
            (Some ()) None)
       = Inl (Errorf ''failed to read authorisation code'' (Some (External ''read error'')))
   \<and> \<not> list_ex is_Exchange
          (snd (Login (toy_env\<lparr>scanner_Scan := NoToken (Some (External ''read error''))\<rparr>)
                  (Some ()) None))
   \<and> fst (Login (toy_env\<lparr>scanner_Scan := Scanned [32, 97, 98, 32]\<rparr>) (Some ()) None)
       = Inl (AuthenticationError ErrCodeExchangeFailed (External ''invalid grant''))
   \<and> list_ex is_Exchange
        (snd (Login (toy_env\<lparr>scanner_Scan := Scanned [32, 97, 98, 32]\<rparr>) (Some ()) None))"
proof -
  have trim: "TrimSpace [] = []" "TrimSpace [32, 9] = []"
    "TrimSpace [32, 97, 98, 32] = [97, 98]"
    by (simp_all add: TrimSpace_def IsSpace_def)
  have reach:
    "GeneratePKCECodes (toy_env\<lparr>scanner_Scan := s\<rparr>)
       = Inr \<lparr>CodeVerifier = ''verifier'', CodeChallenge = ''challenge''\<rparr>"
    "GenerateRandomState (toy_env\<lparr>scanner_Scan := s\<rparr>) = Inr ''state-1''"
    "GenerateAuthURL (toy_env\<lparr>scanner_Scan := s\<rparr>) () ''state-1''
        \<lparr>CodeVerifier = ''verifier'', CodeChallenge = ''challenge''\<rparr>
       = Inr (''https://auth.example/authorize'', ''state-2'')" for s
    by (simp_all add: toy_env_def)
  have same: "toy_env\<lparr>scanner_Scan := Scanned []\<rparr> = toy_env"
    by (simp add: toy_env_def)
  note inst = Login_code_prompt [OF reach, where opts = None]
  show ?thesis
    using inst [of "Scanned []" "External ''x''" "[]" "External ''x''"]
      inst [of "Scanned [32, 9]" "External ''x''" "[32, 9]" "External ''x''"]
      inst [of "NoToken None" "External ''x''" "[]" "External ''x''"]
      inst [of "NoToken (Some (External ''read error''))" "External ''read error''" "[]"
          "External ''x''"]
      inst [of "Scanned [32, 97, 98, 32]" "External ''x''" "[32, 97, 98, 32]"
          "External ''invalid grant''"]
    by (simp add: trim same toy_env_def)
qed

section \<open>Results about the credential log line\<close>

text \<open>When the cleaned path starts with the home directory, that prefix becomes a tilde.\<close>

lemma strings_Replace_1_prefix:
  "prefix old s \<Longrightarrow> strings_Replace_1 s old new = new @ drop (length old) s"
  by (cases s) simp_all

lemma LogSavingCredentials_home_prefix:
  "path \<noteq> [] \<Longrightarrow> prefix HOME (filepath_Clean path) \<Longrightarrow>
     LogSavingCredentials HOME path
       = [''Saving credentials to to '' @ ''~'' @ drop (length HOME) (filepath_Clean path)
          @ [CHR 0x0A]]"
  by (simp add: LogSavingCredentials_def strings_Replace_1_prefix)

text \<open>
  C9. The replacement is of the first occurrence of the home directory in the cleaned
  path, wherever it is. With the home directory \<^verbatim>\<open>/home/u\<close> and the credential path
  \<^verbatim>\<open>/mnt/home/u/auth/claude.json\<close>, which is clean and does not start with the home
  directory, the line printed shows \<^verbatim>\<open>/mnt~/auth/claude.json\<close>.
\<close>

theorem LogSavingCredentials_inner_occurrence:
  "filepath_Clean ''/mnt/home/u/auth/claude.json'' = ''/mnt/home/u/auth/claude.json''
   \<and> \<not> prefix ''/home/u'' (filepath_Clean ''/mnt/home/u/auth/claude.json'')
   \<and> LogSavingCredentials ''/home/u'' ''/mnt/home/u/auth/claude.json''
       = [''Saving credentials to to /mnt~/auth/claude.json'' @ [CHR 0x0A]]"
  by (simp add: LogSavingCredentials_def filepath_Clean_def clean_element_def)

end
